theory Spec2Isabelle
  imports Main "HOL-Library.Word" "HOL-Library.AList"
begin

section \<open>Data model\<close>

text \<open>
  The user table's rows, as the router reads and writes them: the numeric primary key
  (\<open>id\<close> in the source, \<open>ident\<close> here since \<open>id\<close> is the identity function of HOL),
  the separate UUID and the four editable columns.
\<close>

type_synonym UUID = "128 word"

record UserModel =
  ident :: int
  name :: string
  email :: string
  role :: string
  password :: string
  uuid :: UUID

text \<open>
  The body of an update request. Every field is optional; the suffix \<open>_in\<close> keeps the
  field names apart from the columns of \<open>UserModel\<close>.
\<close>

record UserUpdate =
  name_in :: "string option"
  email_in :: "string option"
  role_in :: "string option"
  password_in :: "string option"

text \<open>The two fields of the login form that the router reads.\<close>

record OAuth2PasswordRequestForm =
  username :: string
  password_form :: string

text \<open>
  Python passes the path parameter to the service untyped: the update endpoint hands over
  an \<open>int\<close>, the delete endpoint a \<open>UUID\<close>.
\<close>

datatype pyid = PyInt int | PyUUID UUID

subsection \<open>Exceptions and outcomes of a request\<close>

datatype exn = NoResultFound | ValidationError | OverflowError | OtherError string

type_synonym headers = "(string \<times> string) list"

text \<open>
  A handler returns a value, raises \<open>HTTPException\<close> (status code, detail, headers) or
  lets another exception escape.
\<close>

datatype 'a outcome =
    Return 'a
  | HTTPException nat string headers
  | Uncaught exn

text \<open>
  The status line the framework sends: the route's own success code for a returned value,
  the exception's code for an \<open>HTTPException\<close>, 500 for anything else.
\<close>

fun status_of :: "nat \<Rightarrow> 'a outcome \<Rightarrow> nat" where
  "status_of ok (Return _) = ok"
| "status_of ok (HTTPException code _ _) = code"
| "status_of ok (Uncaught _) = 500"

subsection \<open>Python truthiness\<close>

text \<open>
  \<open>if not result\<close> on what the service's list operation gives back: \<open>None\<close> and the
  empty list are both falsy.
\<close>

fun truthy_list :: "'a list option \<Rightarrow> bool" where
  "truthy_list None = False"
| "truthy_list (Some []) = False"
| "truthy_list (Some (_ # _)) = True"

text \<open>An optional string is truthy when it is present and not empty.\<close>

fun truthy_str :: "string option \<Rightarrow> bool" where
  "truthy_str None = False"
| "truthy_str (Some s) = (s \<noteq> [])"

text \<open>\<open>new or old\<close>: the left operand when it is truthy, the right one otherwise.\<close>

fun py_or :: "string option \<Rightarrow> string \<Rightarrow> string" where
  "py_or None old = old"
| "py_or (Some s) old = (if s = [] then old else s)"

section \<open>Settings\<close>

record Settings =
  PG_DATABASE_URL :: string
  SECRET_KEY :: string
  ALGORITHM :: string
  ACCESS_TOKEN_EXPIRE_MINUTES :: int












section \<open>Tokens\<close>

text \<open>
  A claim of a token is a string (the subject) or a point in time, in seconds. A token is
  its set of claims, kept as the dictionary the router builds, and a signature over them;
  the compact string form of a token is not modelled. The signing primitive of the
  token library is a parameter \<open>sign\<close> taking the secret, the algorithm and the claims.
\<close>

datatype claim = Str string | NumericDate int

type_synonym claims = "(string \<times> claim) list"

type_synonym signer = "string \<Rightarrow> string \<Rightarrow> claims \<Rightarrow> string"

record jwt =
  payload :: claims
  signature :: string

text \<open>
  \<open>timedelta(minutes=m)\<close>, in seconds. Python normalises the duration to whole days plus
  a remainder (floor division of the seconds by 86400) and raises \<open>OverflowError\<close> when
  the number of days is beyond 999999999 in magnitude.
\<close>

definition timedelta_minutes :: "int \<Rightarrow> exn + int" where
  "timedelta_minutes m =
     (let seconds = 60 * m; days = seconds div 86400
      in if days < - 999999999 \<or> 999999999 < days then Inl OverflowError
         else Inr seconds)"

text \<open>
  Modelled from the spec: \<open>AuthUtil.create_access_token\<close> of \<open>app.util.auth\<close>, which is
  not among the sources. It embeds the supplied claims plus an absolute expiry computed as
  the current time plus the lifetime, and signs with the configured secret and algorithm.
\<close>

definition create_access_token ::
  "signer \<Rightarrow> Settings \<Rightarrow> int \<Rightarrow> claims \<Rightarrow> int \<Rightarrow> jwt" where
  "create_access_token sign constants now data expires_delta =
     (let to_encode = AList.update ''exp'' (NumericDate (now + expires_delta)) data
      in \<lparr>payload = to_encode,
          signature = sign (SECRET_KEY constants) (ALGORITHM constants) to_encode\<rparr>)"

text \<open>
  What arrives in the authorization header: text that the token library cannot parse, or
  a token.
\<close>

datatype credentials = Unparsable string | Parsed jwt

text \<open>
  Modelled from the spec: the validation of a token, which is part of \<open>app.util.auth\<close> and
  of the current-user dependency, neither among the sources. It verifies the signature and
  the expiry and yields the subject claim; a malformed token, an invalid signature and an
  expiry in the past fail. A token that carries no expiry time or no subject string counts
  as malformed.
\<close>

definition decode_token :: "signer \<Rightarrow> Settings \<Rightarrow> int \<Rightarrow> credentials \<Rightarrow> string option" where
  "decode_token sign constants now cred =
     (case cred of
        Unparsable _ \<Rightarrow> None
      | Parsed t \<Rightarrow>
          if signature t \<noteq> sign (SECRET_KEY constants) (ALGORITHM constants) (payload t)
          then None
          else
            (case map_of (payload t) ''exp'' of
               Some (NumericDate e) \<Rightarrow>
                 if e < now then None
                 else
                   (case map_of (payload t) ''sub'' of
                      Some (Str s) \<Rightarrow> Some s
                    | _ \<Rightarrow> None)
             | _ \<Rightarrow> None))"

text \<open>
  Modelled from the spec: \<open>get_current_user\<close> of \<open>app.router.user.dependency\<close>, which is
  not among the sources. A missing, invalid or expired token is unauthorized; the subject
  of a valid token is resolved to a stored user by email (\<open>find_by_email\<close> stands for that
  lookup), and a subject that names no user is unauthorized too.
\<close>

definition get_current_user ::
  "signer \<Rightarrow> Settings \<Rightarrow> (string \<Rightarrow> UserModel option) \<Rightarrow> int \<Rightarrow> credentials option
     \<Rightarrow> UserModel outcome" where
  "get_current_user sign constants find_by_email now authorization =
     (case authorization of
        None \<Rightarrow> HTTPException 401 ''Not authenticated'' [(''WWW-Authenticate'', ''Bearer'')]
      | Some cred \<Rightarrow>
          (case decode_token sign constants now cred of
             None \<Rightarrow>
               HTTPException 401 ''Could not validate credentials''
                 [(''WWW-Authenticate'', ''Bearer'')]
           | Some sub \<Rightarrow>
               (case find_by_email sub of
                  None \<Rightarrow>
                    HTTPException 401 ''Could not validate credentials''
                      [(''WWW-Authenticate'', ''Bearer'')]
                | Some user \<Rightarrow> Return user)))"

section \<open>The user service, as the router sees it\<close>

text \<open>
  \<open>UserService\<close> lives in \<open>app.database.user.service\<close>, not among the sources, so the
  router is modelled over what the service answers. A handler calls each operation at most
  once, so an answer is a function of the operation's arguments: the list operation gives
  \<open>None\<close> or a list, the update a success signal, the delete the exception it raised if
  any, the verification a user or nothing.
\<close>

record UserService =
  svc_get_users :: "pyid option \<Rightarrow> UserModel list option"
  svc_update_user :: "UserModel \<Rightarrow> bool"
  svc_delete_user :: "UUID \<Rightarrow> exn option"
  svc_verify_user :: "string \<Rightarrow> string \<Rightarrow> UserModel option"

text \<open>
  What a handler did on the way, in order: the service calls with their arguments, the
  creation of a token, and the entry into the body of the protected route.
\<close>

datatype event =
    GetUsers "pyid option"
  | UpdateUser UserModel
  | DeleteUser UUID
  | VerifyUser string string
  | CreateAccessToken claims int
  | ProtectedRouteBody

section \<open>The router\<close>

text \<open>\<open>GET /user/\<close>\<close>

definition get_users :: "UserService \<Rightarrow> UserModel list outcome \<times> event list" where
  "get_users user_service =
     (case svc_get_users user_service None of
        Some (first # rest) \<Rightarrow> (Return (first # rest), [GetUsers None])
      | _ \<Rightarrow> (Return [], [GetUsers None]))"

text \<open>\<open>PUT /user/{user_id}\<close>, with \<open>user_id: int\<close>.\<close>

text \<open>
  The four assignments of the update handler, \<open>existing_user.name = user.name or
  existing_user.name\<close> and the like for the email, the role and the password.
\<close>

definition overwrite_fields :: "UserUpdate \<Rightarrow> UserModel \<Rightarrow> UserModel" where
  "overwrite_fields user existing_user =
     existing_user
       \<lparr>name := py_or (name_in user) (name existing_user),
        email := py_or (email_in user) (email existing_user),
        role := py_or (role_in user) (role existing_user),
        password := py_or (password_in user) (password existing_user)\<rparr>"

definition update_user ::
  "UserService \<Rightarrow> int \<Rightarrow> UserUpdate \<Rightarrow> UserModel outcome \<times> event list" where
  "update_user user_service user_id user =
     (case svc_get_users user_service (Some (PyInt user_id)) of
        Some (first # _) \<Rightarrow>
          (let existing_user = overwrite_fields user first;
               updated = svc_update_user user_service existing_user;
               trace = [GetUsers (Some (PyInt user_id)), UpdateUser existing_user]
           in if \<not> updated then (HTTPException 400 ''Failed to update user'' [], trace)
              else (Return existing_user, trace))
      | _ \<Rightarrow> (HTTPException 404 ''User not found'' [], [GetUsers (Some (PyInt user_id))]))"

text \<open>\<open>DELETE /user/{user_id}\<close>, with \<open>user_id: UUID\<close>; the route's success code is 204.\<close>

definition delete_user :: "UserService \<Rightarrow> UUID \<Rightarrow> unit outcome \<times> event list" where
  "delete_user user_service user_id =
     (case svc_get_users user_service (Some (PyUUID user_id)) of
        Some (first # _) \<Rightarrow>
          (let trace = [GetUsers (Some (PyUUID user_id)), DeleteUser (uuid first)]
           in case svc_delete_user user_service (uuid first) of
                Some NoResultFound \<Rightarrow> (HTTPException 400 ''Failed to delete user'' [], trace)
              | Some e \<Rightarrow> (Uncaught e, trace)
              | None \<Rightarrow> (Return (), trace))
      | _ \<Rightarrow> (HTTPException 404 ''User not found'' [], [GetUsers (Some (PyUUID user_id))]))"

text \<open>\<open>POST /user/login\<close>\<close>

record login_response =
  access_token :: jwt
  token_type :: string

definition login ::
  "signer \<Rightarrow> Settings \<Rightarrow> int \<Rightarrow> UserService \<Rightarrow> OAuth2PasswordRequestForm
     \<Rightarrow> login_response outcome \<times> event list" where
  "login sign constants now user_service form_data =
     (case svc_verify_user user_service (username form_data) (password_form form_data) of
        None \<Rightarrow>
          (HTTPException 401 ''Invalid credentials'' [(''WWW-Authenticate'', ''Bearer'')],
           [VerifyUser (username form_data) (password_form form_data)])
      | Some user \<Rightarrow>
          (case timedelta_minutes (ACCESS_TOKEN_EXPIRE_MINUTES constants) of
             Inl e \<Rightarrow> (Uncaught e, [VerifyUser (username form_data) (password_form form_data)])
           | Inr access_token_expires \<Rightarrow>
               (let data = [(''sub'', Str (email user))];
                    access_token =
                      create_access_token sign constants now data access_token_expires
                in (Return \<lparr>access_token = access_token, token_type = ''bearer''\<rparr>,
                    [VerifyUser (username form_data) (password_form form_data),
                     CreateAccessToken data access_token_expires]))))"

text \<open>
  \<open>GET /user/protected-route\<close>. The handler takes no argument. The route lists
  \<open>get_current_user\<close> among its dependencies: the framework runs it first, drops the user it
  yields, and calls the handler only when it has not raised.
\<close>

definition protected_route :: "(string \<times> string) list" where
  "protected_route = [(''message'', ''This is a protected route'')]"

definition protected_route_endpoint ::
  "UserModel outcome \<Rightarrow> (string \<times> string) list outcome \<times> event list" where
  "protected_route_endpoint current_user =
     (case current_user of
        Return _ \<Rightarrow> (Return protected_route, [ProtectedRouteBody])
      | HTTPException code detail hs \<Rightarrow> (HTTPException code detail hs, [])
      | Uncaught e \<Rightarrow> (Uncaught e, []))"

text \<open>
  A request to the protected route: the dependency, then the endpoint.
\<close>

definition protected_route_request ::
  "signer \<Rightarrow> Settings \<Rightarrow> (string \<Rightarrow> UserModel option) \<Rightarrow> int \<Rightarrow> credentials option
     \<Rightarrow> (string \<times> string) list outcome \<times> event list" where
  "protected_route_request sign constants find_by_email now authorization =
     protected_route_endpoint (get_current_user sign constants find_by_email now authorization)"

text \<open>The events that are calls of the service's list operation.\<close>

fun is_lookup :: "event \<Rightarrow> bool" where
  "is_lookup (GetUsers _) = True"
| "is_lookup _ = False"

text \<open>The events that create a token.\<close>

fun is_token_creation :: "event \<Rightarrow> bool" where
  "is_token_creation (CreateAccessToken _ _) = True"
| "is_token_creation _ = False"

text \<open>The events that are calls of the service's delete operation.\<close>

fun is_deletion :: "event \<Rightarrow> bool" where
  "is_deletion (DeleteUser _) = True"
| "is_deletion _ = False"

section \<open>Example data\<close>

text \<open>
  Two users, a service that answers for them, a configuration and a toy signing function,
  for the concrete instances of the theorems below.
\<close>

definition alice :: UserModel where
  "alice = \<lparr>ident = 1, name = ''A'', email = ''a@x.com'', role = ''user'', password = ''p'',
            uuid = 7\<rparr>"

definition bob :: UserModel where
  "bob = \<lparr>ident = 2, name = ''B'', email = ''b@x.com'', role = ''admin'', password = ''q'',
          uuid = 9\<rparr>"

definition demo_service :: UserService where
  "demo_service =
     \<lparr>svc_get_users =
        (\<lambda>k. case k of
               None \<Rightarrow> Some [alice, bob]
             | Some (PyInt i) \<Rightarrow> (if i = 1 then Some [alice] else Some [])
             | Some (PyUUID u) \<Rightarrow>
                 (if u = 7 then Some [alice] else if u = 9 then Some [bob] else None)),
      svc_update_user = (\<lambda>u. email u \<noteq> ''taken@x.com''),
      svc_delete_user = (\<lambda>u. if u = 9 then Some NoResultFound else None),
      svc_verify_user =
        (\<lambda>e p. if e = ''a@x.com'' \<and> p = ''p'' then Some alice else None)\<rparr>"

definition demo_constants :: Settings where
  "demo_constants =
     \<lparr>PG_DATABASE_URL = ''postgresql://db/app'', SECRET_KEY = ''k'', ALGORITHM = ''HS256'',
      ACCESS_TOKEN_EXPIRE_MINUTES = 30\<rparr>"

definition demo_sign :: signer where
  "demo_sign key alg cs = key @ alg @ concat (map fst cs)"

definition demo_token :: jwt where
  "demo_token =
     create_access_token demo_sign demo_constants 1000 [(''sub'', Str ''a@x.com'')] 1800"

definition demo_find :: "string \<Rightarrow> UserModel option" where
  "demo_find e = (if e = ''a@x.com'' then Some alice else if e = ''b@x.com'' then Some bob else None)"



section \<open>The list endpoint\<close>

text \<open>
  Claim C8. A list request never fails: the handler always returns, after one call of the
  service's list operation without a filter. When the service's answer is falsy (\<open>None\<close>
  or the empty list) the handler returns exactly the empty list; otherwise it returns the
  service's answer unchanged.
\<close>

theorem get_users_never_fails:
  "\<exists>users. get_users svc = (Return users, [GetUsers None]) \<and>
     (if truthy_list (svc_get_users svc None) then svc_get_users svc None = Some users
      else users = [])"
  by (cases "svc_get_users svc None" rule: truthy_list.cases) (simp_all add: get_users_def)

section \<open>The login endpoint\<close>

text \<open>The range of lifetimes, in minutes, that \<open>timedelta\<close> accepts.\<close>

lemma timedelta_minutes_in_range:
  "- 999999999 \<le> m div 1440 \<Longrightarrow> m div 1440 \<le> 999999999 \<Longrightarrow>
   timedelta_minutes m = Inr (60 * m)"
proof -
  have "(60 * m) div 86400 = m div 1440"
    using zdiv_zmult2_eq [of 60 "60 * m" 1440] by simp
  then show "- 999999999 \<le> m div 1440 \<Longrightarrow> m div 1440 \<le> 999999999 \<Longrightarrow>
      timedelta_minutes m = Inr (60 * m)"
    by (simp add: timedelta_minutes_def Let_def)
qed

text \<open>
  Claim C1, as stated: whenever the credentials verify, the login handler returns an access
  token. It fails for a configured lifetime beyond the range of \<open>timedelta\<close>: with
  1440000000000 minutes, which is 1000000000 days, the handler verifies the user and then
  lets \<open>OverflowError\<close> escape, so the response is a 500 and no token is created.
\<close>

theorem login_overflow_counterexample:
  "svc_verify_user demo_service ''a@x.com'' ''p'' = Some alice \<and>
   login demo_sign (demo_constants\<lparr>ACCESS_TOKEN_EXPIRE_MINUTES := 1440000000000\<rparr>) 1000
       demo_service \<lparr>username = ''a@x.com'', password_form = ''p''\<rparr>
     = (Uncaught OverflowError, [VerifyUser ''a@x.com'' ''p'']) \<and>
   status_of 200 (fst (login demo_sign
       (demo_constants\<lparr>ACCESS_TOKEN_EXPIRE_MINUTES := 1440000000000\<rparr>) 1000
       demo_service \<lparr>username = ''a@x.com'', password_form = ''p''\<rparr>)) = 500"
  by (simp add: login_def demo_service_def demo_constants_def timedelta_minutes_def)

text \<open>
  Claim C1, amended. When the credentials verify, so that the service's verification yields
  a user record, and the configured lifetime is within the range of \<open>timedelta\<close> (its whole
  days, the minutes divided by 1440 and rounded down, lie between -999999999 and
  999999999), the login handler returns an access token with token type \<open>bearer\<close>. The
  token is signed with the configured secret and algorithm, its subject claim is that
  user's email, and its expiry is the current time plus the configured lifetime in minutes
  (sixty seconds each).
\<close>

theorem login_issues_token:
  assumes "svc_verify_user svc (username form_data) (password_form form_data) = Some user"
    and "- 999999999 \<le> ACCESS_TOKEN_EXPIRE_MINUTES constants div 1440"
    and "ACCESS_TOKEN_EXPIRE_MINUTES constants div 1440 \<le> 999999999"
  shows "\<exists>tok. fst (login sign constants now svc form_data)
                  = Return \<lparr>access_token = tok, token_type = ''bearer''\<rparr> \<and>
           signature tok = sign (SECRET_KEY constants) (ALGORITHM constants) (payload tok) \<and>
           map_of (payload tok) ''sub'' = Some (Str (email user)) \<and>
           map_of (payload tok) ''exp''
             = Some (NumericDate (now + 60 * ACCESS_TOKEN_EXPIRE_MINUTES constants))"
  using assms(1) timedelta_minutes_in_range [OF assms(2,3)]
  by (simp add: login_def create_access_token_def Let_def update_conv')

theorem login_issues_token_witness:
  "svc_verify_user demo_service ''a@x.com'' ''p'' = Some alice \<and>
   - 999999999 \<le> ACCESS_TOKEN_EXPIRE_MINUTES demo_constants div 1440 \<and>
   ACCESS_TOKEN_EXPIRE_MINUTES demo_constants div 1440 \<le> 999999999 \<and>
   (\<exists>tok. fst (login demo_sign demo_constants 1000 demo_service
                  \<lparr>username = ''a@x.com'', password_form = ''p''\<rparr>)
             = Return \<lparr>access_token = tok, token_type = ''bearer''\<rparr> \<and>
           signature tok = demo_sign ''k'' ''HS256'' (payload tok) \<and>
           map_of (payload tok) ''sub'' = Some (Str ''a@x.com'') \<and>
           map_of (payload tok) ''exp'' = Some (NumericDate 2800))"
proof -
  have h: "svc_verify_user demo_service
             (username \<lparr>username = ''a@x.com'', password_form = ''p''\<rparr>)
             (password_form \<lparr>username = ''a@x.com'', password_form = ''p''\<rparr>) = Some alice"
    by (simp add: demo_service_def)
  have lo: "- 999999999 \<le> ACCESS_TOKEN_EXPIRE_MINUTES demo_constants div 1440"
    and hi: "ACCESS_TOKEN_EXPIRE_MINUTES demo_constants div 1440 \<le> 999999999"
    by (simp_all add: demo_constants_def)
  show ?thesis
    using login_issues_token [OF h lo hi, of demo_sign 1000] h lo hi
    by (simp add: demo_constants_def alice_def)
qed

text \<open>
  Claim C3. When the credentials do not verify, so that the service's verification yields
  nothing, the login handler raises an HTTP exception with status 401 and the header
  \<open>WWW-Authenticate: Bearer\<close>; it creates no access token and returns none.
\<close>

theorem login_rejects:
  assumes "svc_verify_user svc (username form_data) (password_form form_data) = None"
  shows "fst (login sign constants now svc form_data)
           = HTTPException 401 ''Invalid credentials'' [(''WWW-Authenticate'', ''Bearer'')] \<and>
         status_of 200 (fst (login sign constants now svc form_data)) = 401 \<and>
         filter is_token_creation (snd (login sign constants now svc form_data)) = [] \<and>
         (\<forall>r. fst (login sign constants now svc form_data) \<noteq> Return r)"
  using assms by (simp add: login_def)

theorem login_rejects_witness:
  "svc_verify_user demo_service ''a@x.com'' ''wrong'' = None \<and>
   login demo_sign demo_constants 1000 demo_service
       \<lparr>username = ''a@x.com'', password_form = ''wrong''\<rparr>
     = (HTTPException 401 ''Invalid credentials'' [(''WWW-Authenticate'', ''Bearer'')],
        [VerifyUser ''a@x.com'' ''wrong''])"
proof -
  have h: "svc_verify_user demo_service
             (username \<lparr>username = ''a@x.com'', password_form = ''wrong''\<rparr>)
             (password_form \<lparr>username = ''a@x.com'', password_form = ''wrong''\<rparr>) = None"
    by (simp add: demo_service_def)
  show ?thesis
    using login_rejects [OF h, of demo_sign demo_constants 1000] h
    by (simp add: login_def)
qed

section \<open>The delete endpoint\<close>

text \<open>
  Claim C4. When the lookup by UUID gives a falsy answer, the delete endpoint responds 404,
  not 204, and the service's delete operation is not called. The response is 400 exactly
  when the lookup found a user and the delete operation then raised \<open>NoResultFound\<close>.
\<close>

theorem delete_user_status:
  "(\<not> truthy_list (svc_get_users svc (Some (PyUUID user_id))) \<longrightarrow>
      status_of 204 (fst (delete_user svc user_id)) = 404 \<and>
      status_of 204 (fst (delete_user svc user_id)) \<noteq> 204 \<and>
      filter is_deletion (snd (delete_user svc user_id)) = []) \<and>
   (status_of 204 (fst (delete_user svc user_id)) = 400 \<longleftrightarrow>
      (\<exists>first rest. svc_get_users svc (Some (PyUUID user_id)) = Some (first # rest) \<and>
         svc_delete_user svc (uuid first) = Some NoResultFound))"
proof (cases "svc_get_users svc (Some (PyUUID user_id))" rule: truthy_list.cases)
  case 1
  then show ?thesis by (simp add: delete_user_def)
next
  case 2
  then show ?thesis by (simp add: delete_user_def)
next
  case (3 first rest)
  then show ?thesis
    by (cases "svc_delete_user svc (uuid first)")
      (simp_all add: delete_user_def Let_def split: exn.splits)
qed

theorem delete_user_status_witness:
  "\<not> truthy_list (svc_get_users demo_service (Some (PyUUID 8))) \<and>
   status_of 204 (fst (delete_user demo_service 8)) = 404 \<and>
   status_of 204 (fst (delete_user demo_service 9)) = 400 \<and>
   status_of 204 (fst (delete_user demo_service 7)) = 204"
  using delete_user_status [of demo_service 8] delete_user_status [of demo_service 9]
  by (simp add: demo_service_def delete_user_def bob_def alice_def)

section \<open>The update endpoint\<close>

text \<open>
  Claim C5. On an update request for a user that the lookup finds, the record handed to
  the service's update operation, which is also the record returned on success, has each
  of name, email, role and password overwritten with the request's value when that value
  is truthy and left as it was when the value is omitted or falsy; the numeric identifier
  and the UUID are unchanged.
\<close>

theorem update_user_partial:
  assumes "svc_get_users svc (Some (PyInt user_id)) = Some (first # rest)"
  shows "\<exists>stored. snd (update_user svc user_id user)
                     = [GetUsers (Some (PyInt user_id)), UpdateUser stored] \<and>
           (\<forall>r. fst (update_user svc user_id user) = Return r \<longrightarrow> r = stored) \<and>
           name stored = (if truthy_str (name_in user) then the (name_in user) else name first) \<and>
           email stored
             = (if truthy_str (email_in user) then the (email_in user) else email first) \<and>
           role stored = (if truthy_str (role_in user) then the (role_in user) else role first) \<and>
           password stored
             = (if truthy_str (password_in user) then the (password_in user)
                else password first) \<and>
           ident stored = ident first \<and> uuid stored = uuid first"
proof -
  have or_eq: "py_or new old = (if truthy_str new then the new else old)" for new old
    by (cases new) simp_all
  show ?thesis
    using assms by (simp add: update_user_def overwrite_fields_def Let_def or_eq)
qed

theorem update_user_partial_witness:
  "svc_get_users demo_service (Some (PyInt 1)) = Some [alice] \<and>
   update_user demo_service 1
       \<lparr>name_in = Some ''Z'', email_in = None, role_in = Some [], password_in = None\<rparr>
     = (Return (alice\<lparr>name := ''Z''\<rparr>),
        [GetUsers (Some (PyInt 1)), UpdateUser (alice\<lparr>name := ''Z''\<rparr>)])"
proof -
  have h: "svc_get_users demo_service (Some (PyInt 1)) = Some (alice # [])"
    by (simp add: demo_service_def)
  show ?thesis
    using update_user_partial [OF h,
        of "\<lparr>name_in = Some ''Z'', email_in = None, role_in = Some [], password_in = None\<rparr>"] h
    by (simp add: update_user_def overwrite_fields_def demo_service_def alice_def Let_def)
qed

text \<open>
  Claim C6. On an update request: when the lookup by the path identifier gives a falsy
  answer the handler raises 404; when it finds a user and the service's update operation
  signals failure the handler raises 400; otherwise the handler returns the updated record
  with status 200.
\<close>

theorem update_user_status:
  "(\<not> truthy_list (svc_get_users svc (Some (PyInt user_id))) \<longrightarrow>
      fst (update_user svc user_id user) = HTTPException 404 ''User not found'' []) \<and>
   (\<forall>first rest. svc_get_users svc (Some (PyInt user_id)) = Some (first # rest) \<longrightarrow>
      (if svc_update_user svc (overwrite_fields user first)
       then fst (update_user svc user_id user) = Return (overwrite_fields user first) \<and>
            status_of 200 (fst (update_user svc user_id user)) = 200
       else fst (update_user svc user_id user)
              = HTTPException 400 ''Failed to update user'' []))"
  by (cases "svc_get_users svc (Some (PyInt user_id))" rule: truthy_list.cases)
    (simp_all add: update_user_def Let_def)

theorem update_user_status_witness:
  "\<not> truthy_list (svc_get_users demo_service (Some (PyInt 5))) \<and>
   status_of 200 (fst (update_user demo_service 5
       \<lparr>name_in = None, email_in = None, role_in = None, password_in = None\<rparr>)) = 404 \<and>
   svc_get_users demo_service (Some (PyInt 1)) = Some [alice] \<and>
   status_of 200 (fst (update_user demo_service 1
       \<lparr>name_in = None, email_in = Some ''taken@x.com'', role_in = None,
        password_in = None\<rparr>)) = 400 \<and>
   status_of 200 (fst (update_user demo_service 1
       \<lparr>name_in = None, email_in = Some ''c@x.com'', role_in = None,
        password_in = None\<rparr>)) = 200"
  using update_user_status [of demo_service 5
      "\<lparr>name_in = None, email_in = None, role_in = None, password_in = None\<rparr>"]
    update_user_status [of demo_service 1
      "\<lparr>name_in = None, email_in = Some ''taken@x.com'', role_in = None, password_in = None\<rparr>"]
    update_user_status [of demo_service 1
      "\<lparr>name_in = None, email_in = Some ''c@x.com'', role_in = None, password_in = None\<rparr>"]
  by (simp add: update_user_def Let_def demo_service_def overwrite_fields_def alice_def)

text \<open>
  Claim C7. On every update request the existing user is looked up by handing the plain
  numeric path identifier to the service's list operation as its UUID filter. That call is
  the first thing the handler does and the only lookup it makes. The response is 404
  exactly when the answer for that key is falsy; otherwise the record that is updated is
  the first row of that answer. The result depends on nothing else the list operation
  would answer: a service that agrees on this one key, and on the update, gives the same
  result.
\<close>

theorem update_user_lookup_key:
  "filter is_lookup (snd (update_user svc user_id user)) = [GetUsers (Some (PyInt user_id))] \<and>
   hd (snd (update_user svc user_id user)) = GetUsers (Some (PyInt user_id)) \<and>
   (fst (update_user svc user_id user) = HTTPException 404 ''User not found'' [] \<longleftrightarrow>
      \<not> truthy_list (svc_get_users svc (Some (PyInt user_id)))) \<and>
   (\<forall>first rest. svc_get_users svc (Some (PyInt user_id)) = Some (first # rest) \<longrightarrow>
      snd (update_user svc user_id user)
        = [GetUsers (Some (PyInt user_id)), UpdateUser (overwrite_fields user first)]) \<and>
   (svc_get_users svc' (Some (PyInt user_id)) = svc_get_users svc (Some (PyInt user_id)) \<and>
    svc_update_user svc' = svc_update_user svc \<longrightarrow>
      update_user svc' user_id user = update_user svc user_id user)"
proof (intro conjI allI impI)
  show "filter is_lookup (snd (update_user svc user_id user)) = [GetUsers (Some (PyInt user_id))]"
    by (cases "svc_get_users svc (Some (PyInt user_id))" rule: truthy_list.cases)
      (simp_all add: update_user_def Let_def)
  show "hd (snd (update_user svc user_id user)) = GetUsers (Some (PyInt user_id))"
    by (cases "svc_get_users svc (Some (PyInt user_id))" rule: truthy_list.cases)
      (simp_all add: update_user_def Let_def)
  show "fst (update_user svc user_id user) = HTTPException 404 ''User not found'' [] \<longleftrightarrow>
      \<not> truthy_list (svc_get_users svc (Some (PyInt user_id)))"
    by (cases "svc_get_users svc (Some (PyInt user_id))" rule: truthy_list.cases)
      (simp_all add: update_user_def Let_def)
next
  fix first rest
  assume "svc_get_users svc (Some (PyInt user_id)) = Some (first # rest)"
  then show "snd (update_user svc user_id user)
        = [GetUsers (Some (PyInt user_id)), UpdateUser (overwrite_fields user first)]"
    by (simp add: update_user_def Let_def)
next
  assume "svc_get_users svc' (Some (PyInt user_id)) = svc_get_users svc (Some (PyInt user_id)) \<and>
    svc_update_user svc' = svc_update_user svc"
  then have "svc_get_users svc' (Some (PyInt user_id)) = svc_get_users svc (Some (PyInt user_id))"
    and "svc_update_user svc' = svc_update_user svc"
    by simp_all
  then show "update_user svc' user_id user = update_user svc user_id user"
    by (simp add: update_user_def split: option.splits list.splits)
qed

theorem update_user_lookup_key_witness:
  "truthy_list (svc_get_users demo_service None) \<and>
   \<not> truthy_list (svc_get_users demo_service (Some (PyInt 5))) \<and>
   fst (update_user demo_service 5
       \<lparr>name_in = Some ''Z'', email_in = None, role_in = None, password_in = None\<rparr>)
     = HTTPException 404 ''User not found'' [] \<and>
   svc_get_users demo_service (Some (PyInt 1)) = Some [alice] \<and>
   snd (update_user demo_service 1
       \<lparr>name_in = Some ''Z'', email_in = None, role_in = None, password_in = None\<rparr>)
     = [GetUsers (Some (PyInt 1)),
        UpdateUser (overwrite_fields
          \<lparr>name_in = Some ''Z'', email_in = None, role_in = None, password_in = None\<rparr> alice)] \<and>
   update_user
       (demo_service\<lparr>svc_get_users := \<lambda>k. if k = Some (PyInt 1) then Some [alice] else None\<rparr>)
       1 \<lparr>name_in = Some ''Z'', email_in = None, role_in = None, password_in = None\<rparr>
     = update_user demo_service 1
         \<lparr>name_in = Some ''Z'', email_in = None, role_in = None, password_in = None\<rparr>"
proof -
  let ?u = "\<lparr>name_in = Some ''Z'', email_in = None, role_in = None, password_in = None\<rparr>"
  let ?svc' = "demo_service\<lparr>svc_get_users :=
      \<lambda>k. if k = Some (PyInt 1) then Some [alice] else None\<rparr>"
  have all: "truthy_list (svc_get_users demo_service None)"
    by (simp add: demo_service_def)
  have none: "\<not> truthy_list (svc_get_users demo_service (Some (PyInt 5)))"
    by (simp add: demo_service_def)
  have one: "svc_get_users demo_service (Some (PyInt 1)) = Some [alice]"
    by (simp add: demo_service_def)
  have same: "svc_get_users ?svc' (Some (PyInt 1)) = svc_get_users demo_service (Some (PyInt 1)) \<and>
      svc_update_user ?svc' = svc_update_user demo_service"
    by (simp add: demo_service_def)
  note k5 = update_user_lookup_key [of demo_service 5 ?u demo_service]
  note k1 = update_user_lookup_key [of demo_service 1 ?u ?svc']
  have a: "fst (update_user demo_service 5 ?u) = HTTPException 404 ''User not found'' []"
    using k5 [THEN conjunct2, THEN conjunct2, THEN conjunct1] none by (rule iffD2)
  have b: "snd (update_user demo_service 1 ?u)
      = [GetUsers (Some (PyInt 1)), UpdateUser (overwrite_fields ?u alice)]"
    using k1 [THEN conjunct2, THEN conjunct2, THEN conjunct2, THEN conjunct1] one by blast
  have c: "update_user ?svc' 1 ?u = update_user demo_service 1 ?u"
    using k1 [THEN conjunct2, THEN conjunct2, THEN conjunct2, THEN conjunct2] same
    by (rule mp)
  show ?thesis
    using all none a one b c by (intro conjI)
qed

section \<open>The protected route\<close>

text \<open>
  What the dependency accepts: a token yields its subject exactly when it is correctly
  signed, carries an expiry that is not in the past, and carries a subject.
\<close>

lemma decode_token_Some:
  "decode_token sign constants now cred = Some s \<longleftrightarrow>
     (\<exists>t e. cred = Parsed t \<and>
        signature t = sign (SECRET_KEY constants) (ALGORITHM constants) (payload t) \<and>
        map_of (payload t) ''exp'' = Some (NumericDate e) \<and> now \<le> e \<and>
        map_of (payload t) ''sub'' = Some (Str s))"
proof (cases cred)
  case (Unparsable x)
  then show ?thesis by (simp add: decode_token_def)
next
  case (Parsed t)
  show ?thesis
  proof (cases "signature t = sign (SECRET_KEY constants) (ALGORITHM constants) (payload t)")
    case False
    with Parsed show ?thesis by (simp add: decode_token_def)
  next
    case True
    with Parsed show ?thesis
      by (simp add: decode_token_def not_less split: option.splits claim.splits)
  qed
qed

lemma get_current_user_Return:
  "get_current_user sign constants find_by_email now authorization = Return user \<longleftrightarrow>
     (\<exists>cred s. authorization = Some cred \<and> decode_token sign constants now cred = Some s \<and>
        find_by_email s = Some user)"
  by (simp add: get_current_user_def split: option.splits)

lemma get_current_user_outcomes:
  "(\<exists>user. get_current_user sign constants find_by_email now authorization = Return user) \<or>
   (\<exists>detail. get_current_user sign constants find_by_email now authorization
      = HTTPException 401 detail [(''WWW-Authenticate'', ''Bearer'')])"
  by (simp add: get_current_user_def split: option.splits)

text \<open>
  Claim C2. A request to the protected route is answered with 200 exactly when it carries
  a token that is correctly signed, not expired, and whose subject resolves to an existing
  user; the response is then the fixed message. Every other request, among them one whose
  token is missing, unparsable, tampered with or expired, is answered with 401, and the
  body of the handler is not reached.
\<close>

theorem protected_route_auth:
  "(status_of 200 (fst (protected_route_request sign constants find_by_email now authorization))
      = 200 \<longleftrightarrow>
    (\<exists>t e s user. authorization = Some (Parsed t) \<and>
       signature t = sign (SECRET_KEY constants) (ALGORITHM constants) (payload t) \<and>
       map_of (payload t) ''exp'' = Some (NumericDate e) \<and> now \<le> e \<and>
       map_of (payload t) ''sub'' = Some (Str s) \<and> find_by_email s = Some user)) \<and>
   (status_of 200 (fst (protected_route_request sign constants find_by_email now authorization))
      = 200 \<longrightarrow>
    protected_route_request sign constants find_by_email now authorization
      = (Return [(''message'', ''This is a protected route'')], [ProtectedRouteBody])) \<and>
   (status_of 200 (fst (protected_route_request sign constants find_by_email now authorization))
      \<noteq> 200 \<longrightarrow>
    status_of 200 (fst (protected_route_request sign constants find_by_email now authorization))
      = 401 \<and>
    snd (protected_route_request sign constants find_by_email now authorization) = []) \<and>
   (authorization = None \<or> authorization = Some (Unparsable x) \<or>
    authorization = Some (Parsed t') \<and>
      (signature t' \<noteq> sign (SECRET_KEY constants) (ALGORITHM constants) (payload t') \<or>
       map_of (payload t') ''exp'' = Some (NumericDate e') \<and> e' < now) \<longrightarrow>
    status_of 200 (fst (protected_route_request sign constants find_by_email now authorization))
      = 401)"
proof -
  let ?dep = "get_current_user sign constants find_by_email now authorization"
  let ?req = "protected_route_request sign constants find_by_email now authorization"
  let ?valid = "\<exists>t e s user. authorization = Some (Parsed t) \<and>
       signature t = sign (SECRET_KEY constants) (ALGORITHM constants) (payload t) \<and>
       map_of (payload t) ''exp'' = Some (NumericDate e) \<and> now \<le> e \<and>
       map_of (payload t) ''sub'' = Some (Str s) \<and> find_by_email s = Some user"
  have req: "?req = protected_route_endpoint ?dep"
    by (simp add: protected_route_request_def)
  have valid: "(\<exists>user. ?dep = Return user) \<longleftrightarrow> ?valid"
    unfolding get_current_user_Return decode_token_Some by blast
  consider (ok) user where "?dep = Return user"
    | (denied) detail where "?dep = HTTPException 401 detail [(''WWW-Authenticate'', ''Bearer'')]"
    using get_current_user_outcomes [of sign constants find_by_email now authorization] by blast
  then show ?thesis
  proof cases
    case ok
    then have v: ?valid using valid by blast
    have r: "?req = (Return [(''message'', ''This is a protected route'')], [ProtectedRouteBody])"
      by (simp add: req ok protected_route_endpoint_def protected_route_def)
    from v have "authorization \<noteq> None" "authorization \<noteq> Some (Unparsable x)"
      "authorization = Some (Parsed t') \<Longrightarrow>
         signature t' = sign (SECRET_KEY constants) (ALGORITHM constants) (payload t')"
      "authorization = Some (Parsed t') \<Longrightarrow> map_of (payload t') ''exp'' = Some (NumericDate e')
         \<Longrightarrow> now \<le> e'"
      by auto
    with v r show ?thesis by auto
  next
    case denied
    then have nv: "\<not> ?valid" using valid by simp
    have r: "?req = (HTTPException 401 detail [(''WWW-Authenticate'', ''Bearer'')], [])"
      by (simp add: req denied protected_route_endpoint_def)
    have s: "status_of 200 (fst ?req) = 401" "snd ?req = []"
      by (simp_all add: r)
    show ?thesis
      unfolding s using nv by simp
  qed
qed

theorem protected_route_auth_witness:
  "protected_route_request demo_sign demo_constants demo_find 2000 (Some (Parsed demo_token))
     = (Return [(''message'', ''This is a protected route'')], [ProtectedRouteBody]) \<and>
   status_of 200 (fst (protected_route_request demo_sign demo_constants demo_find 2801
     (Some (Parsed demo_token)))) = 401 \<and>
   status_of 200 (fst (protected_route_request demo_sign demo_constants demo_find 2000
     (Some (Parsed (demo_token\<lparr>signature := ''forged''\<rparr>))))) = 401 \<and>
   status_of 200 (fst (protected_route_request demo_sign demo_constants demo_find 2000 None))
     = 401"
proof -
  have tok: "demo_token = \<lparr>payload = [(''sub'', Str ''a@x.com''), (''exp'', NumericDate 2800)],
                           signature = ''kHS256subexp''\<rparr>"
    by (simp add: demo_token_def create_access_token_def demo_sign_def demo_constants_def)
  have ok: "status_of 200 (fst (protected_route_request demo_sign demo_constants demo_find 2000
      (Some (Parsed demo_token)))) = 200"
    by (simp add: tok protected_route_request_def protected_route_endpoint_def
        get_current_user_def decode_token_def demo_sign_def demo_constants_def demo_find_def)
  have late: "Some (Parsed demo_token) = None \<or>
      Some (Parsed demo_token) = Some (Unparsable []) \<or>
      Some (Parsed demo_token) = Some (Parsed demo_token) \<and>
        (signature demo_token
           \<noteq> demo_sign (SECRET_KEY demo_constants) (ALGORITHM demo_constants)
               (payload demo_token) \<or>
         map_of (payload demo_token) ''exp'' = Some (NumericDate 2800) \<and> (2800::int) < 2801)"
    by (simp add: tok)
  have forged: "Some (Parsed (demo_token\<lparr>signature := ''forged''\<rparr>)) = None \<or>
      Some (Parsed (demo_token\<lparr>signature := ''forged''\<rparr>)) = Some (Unparsable []) \<or>
      Some (Parsed (demo_token\<lparr>signature := ''forged''\<rparr>))
        = Some (Parsed (demo_token\<lparr>signature := ''forged''\<rparr>)) \<and>
        (signature (demo_token\<lparr>signature := ''forged''\<rparr>)
           \<noteq> demo_sign (SECRET_KEY demo_constants) (ALGORITHM demo_constants)
               (payload (demo_token\<lparr>signature := ''forged''\<rparr>)) \<or>
         map_of (payload (demo_token\<lparr>signature := ''forged''\<rparr>)) ''exp''
           = Some (NumericDate 0) \<and> (0::int) < 2000)"
    by (simp add: tok demo_sign_def demo_constants_def)
  have missing: "(None :: credentials option) = None \<or> None = Some (Unparsable []) \<or>
      None = Some (Parsed demo_token) \<and>
        (signature demo_token
           \<noteq> demo_sign (SECRET_KEY demo_constants) (ALGORITHM demo_constants)
               (payload demo_token) \<or>
         map_of (payload demo_token) ''exp'' = Some (NumericDate 0) \<and> (0::int) < 2000)"
    by simp
  note valid_case = protected_route_auth [of demo_sign demo_constants demo_find 2000
      "Some (Parsed demo_token)" "[]" demo_token 0,
      THEN conjunct2, THEN conjunct1, THEN mp, OF ok]
  note expired_case = protected_route_auth [of demo_sign demo_constants demo_find 2801
      "Some (Parsed demo_token)" "[]" demo_token 2800,
      THEN conjunct2, THEN conjunct2, THEN conjunct2, THEN mp, OF late]
  note forged_case = protected_route_auth [of demo_sign demo_constants demo_find 2000
      "Some (Parsed (demo_token\<lparr>signature := ''forged''\<rparr>))" "[]"
      "demo_token\<lparr>signature := ''forged''\<rparr>" 0,
      THEN conjunct2, THEN conjunct2, THEN conjunct2, THEN mp, OF forged]
  note missing_case = protected_route_auth [of demo_sign demo_constants demo_find 2000
      None "[]" demo_token 0,
      THEN conjunct2, THEN conjunct2, THEN conjunct2, THEN mp, OF missing]
  show ?thesis
    by (intro conjI valid_case expired_case forged_case missing_case)
qed

text \<open>
  Claim C10. The success response of the protected route does not depend on who is
  authenticated: whichever users the dependency resolves for two requests, the endpoint
  answers both with the same body, the fixed message.
\<close>

theorem protected_route_same_body:
  "protected_route_endpoint (Return user1) = protected_route_endpoint (Return user2) \<and>
   fst (protected_route_endpoint (Return user1))
     = Return [(''message'', ''This is a protected route'')]"
  by (simp add: protected_route_endpoint_def protected_route_def)

section \<open>The settings loader\<close>








end
